theory Spec2Isabelle
  imports Main
begin

section \<open>HTTPStatus: the exported table of HTTP status codes\<close>

text \<open>
  The module \<^verbatim>\<open>HTTPStatus.js\<close> is one statement,
  \<^verbatim>\<open>module.exports = { ... }\<close>: an object literal whose first part gives every
  symbolic constant its numeric code (\<^verbatim>\<open>NOT_FOUND: 404\<close>) and whose second part,
  headed \<^verbatim>\<open>Status description\<close>, gives every code its text
  (\<^verbatim>\<open>404: 'Not Found'\<close>). Callers read it by property access:
  \<^verbatim>\<open>HTTPStatus.NOT_FOUND\<close> and \<^verbatim>\<open>HTTPStatus[404]\<close>.
\<close>

subsection \<open>Values and property keys\<close>

text \<open>
  The literal holds numbers and strings only. The third constructor stands for the
  built-in members every object inherits from the language's \<^verbatim>\<open>Object.prototype\<close>;
  it names the member and says nothing more about it.
\<close>

datatype jsval = Num int | Str string | Builtin string

text \<open>
  A property key is a string: a numeric key, in the literal (\<^verbatim>\<open>404:\<close>) or in an
  access (\<^verbatim>\<open>HTTPStatus[404]\<close>), is first turned into its decimal rendering: for an
  integer, the digits, after a minus sign for a negative one. (From ten to the power 21
  on, the language renders a number with an exponent, \<^verbatim>\<open>1e+21\<close>; the letter in it
  keeps that string, like the longer digit string here, from being a key of the table.)
\<close>

definition digit_char :: "nat \<Rightarrow> char" where
  "digit_char d = ''0123456789'' ! (d mod 10)"

fun digits :: "nat \<Rightarrow> string" where
  "digits n = (if n < 10 then [digit_char n] else digits (n div 10) @ [digit_char (n mod 10)])"

declare digits.simps [simp del]

definition ToString :: "int \<Rightarrow> string" where
  "ToString i = (if i < 0 then CHR ''-'' # digits (nat (- i)) else digits (nat i))"

text \<open>
  Read back, a string of decimal digits gives the number it renders: the conversion the
  language applies to a digit string used as a number.
\<close>

definition digit_val :: "char \<Rightarrow> nat" where
  "digit_val ch = of_char ch - 48"

definition numval :: "string \<Rightarrow> nat" where
  "numval s = foldl (\<lambda>a ch. 10 * a + digit_val ch) 0 s"

subsection \<open>The object literal\<close>

text \<open>The symbolic constants, in the order of the source (its first part).\<close>

definition constants :: "(string \<times> int) list" where
  "constants = [
    (''CONTINUE'', 100),
    (''SWITCHING_PROTOCOLS'', 101),
    (''PROCESSING'', 102),
    (''OK'', 200),
    (''CREATED'', 201),
    (''ACCEPTED'', 202),
    (''NON_AUTHORITATIVE_INFORMATION'', 203),
    (''NO_CONTENT'', 204),
    (''RESET_CONTENT'', 205),
    (''PARTIAL_CONTENT'', 206),
    (''MULTI_STATUS'', 207),
    (''ALREADY_REPORTED'', 208),
    (''IM_USED'', 209),
    (''MULTIPLE_CHOICES'', 300),
    (''MOVED_PERMANENTLY'', 301),
    (''FOUND'', 302),
    (''SEE_OTHER'', 303),
    (''NOT_MODIFIED'', 304),
    (''USE_PROXY'', 305),
    (''SWITCH_PROXY'', 306),
    (''TEMPORARY_REDIRECT'', 307),
    (''PERMANENT_REDIRECT'', 308),
    (''BAD_REQUEST'', 400),
    (''UNAUTHORIZED'', 401),
    (''PAYMENT_REQUIRED'', 402),
    (''FORBIDDEN'', 403),
    (''NOT_FOUND'', 404),
    (''METHOD_NOT_ALLOWED'', 405),
    (''NOT_ACCEPTABLE'', 406),
    (''PROXY_AUTHENTICATION_REQUIRED'', 407),
    (''REQUEST_TIMEOUT'', 408),
    (''CONFLICT'', 409),
    (''GONE'', 410),
    (''LENGTH_REQUIRED'', 411),
    (''PRECONDITION_FAILED'', 412),
    (''REQUEST_ENTITY_TOO_LARGE'', 413),
    (''REQUEST_URI_TOO_LONG'', 414),
    (''UNSUPPORTED_MEDIA_TYPE'', 415),
    (''REQUESTED_RANGE_NOT_SATISFIABLE'', 416),
    (''EXPECTATION_FAILED'', 417),
    (''I_AM_A_TEAPOT'', 418),
    (''AUTHENTICATION_TIMEOUT'', 419),
    (''METHOD_FAILURE'', 420),
    (''ENHANCE_YOUR_CALM'', 420),
    (''UNPROCESSABLE_ENTITY'', 422),
    (''LOCKED'', 423),
    (''FAILED_DEPENDENCY'', 424),
    (''UPGRADE_REQUIRED'', 426),
    (''PRECONDITION_REQUIRED'', 428),
    (''TOO_MANY_REQUESTS'', 429),
    (''REQUEST_HEADER_FIELDS_TOO_LARGE'', 431),
    (''LOGIN_TIMEOUT'', 440),
    (''NO_RESPONSE'', 444),
    (''RETRY_WITH'', 449),
    (''BLOCKED_BY_WINDOWS_PARENTAL_CONTROLS'', 450),
    (''UNAVAILABLE_FOR_LEGAL_REASONS'', 451),
    (''REDIRECT'', 451),
    (''REQUEST_HEADER_TOO_LARGE'', 494),
    (''CERT_ERROR'', 495),
    (''NO_CERT'', 496),
    (''HTTP_TO_HTTPS'', 497),
    (''TOKEN_EXPIRED'', 498),
    (''TOKEN_INVALID'', 498),
    (''CLIENT_CLOSED_REQUEST'', 499),
    (''TOKEN_REQUIRED'', 499),
    (''INTERNAL_SERVER_ERROR'', 500),
    (''NOT_IMPLEMENTED'', 501),
    (''BAD_GATEWAY'', 502),
    (''SERVICE_UNAVAILABLE'', 503),
    (''GATEWAY_TIMEOUT'', 504),
    (''HTTP_VERSION_NOT_SUPPORTED'', 505),
    (''VARIANT_ALSO_NEGOTIATES'', 506),
    (''INSUFFICIENT_STORAGE'', 507),
    (''LOOP_DETECTED'', 508),
    (''BANDWIDTH_LIMIT_EXCEEDED'', 509),
    (''NOT_EXTENDED'', 510),
    (''NETWORK_AUTHENTICATION_REQUIRED'', 511),
    (''ORIGIN_ERROR'', 520),
    (''WEB_SERVER_IS_DOWN'', 521),
    (''CONNECTION_TIMED_OUT'', 522),
    (''PROXY_DECLINED_REQUEST'', 523),
    (''A_TIMEOUT_OCCURRED'', 524),
    (''NETWORK_READ_TIMEOUT_ERROR'', 598),
    (''NETWORK_CONNECT_TIMEOUT_ERROR'', 599)]"

text \<open>The status descriptions, in the order of the source (its second part).\<close>

definition descriptions :: "(int \<times> string) list" where
  "descriptions = [
    (100, ''Continue''),
    (101, ''Switching Protocols''),
    (102, ''Processing''),
    (200, ''OK''),
    (201, ''Created''),
    (202, ''Accepted''),
    (203, ''Non-Authoritative Information''),
    (204, ''No Content''),
    (205, ''Reset Content''),
    (206, ''Partial Content''),
    (207, ''Multi-Status''),
    (208, ''Already Reported''),
    (209, ''IM Used''),
    (300, ''Multiple Choices''),
    (301, ''Moved Permanently''),
    (302, ''Found''),
    (303, ''See Other''),
    (304, ''Not Modified''),
    (305, ''Use Proxy''),
    (306, ''Switch Proxy''),
    (307, ''Temporary Redirect''),
    (308, ''Permanent Redirect''),
    (400, ''Bad Request''),
    (401, ''Unauthorized''),
    (402, ''Payment Required''),
    (403, ''Forbidden''),
    (404, ''Not Found''),
    (405, ''Method Not Allowed''),
    (406, ''Not Acceptable''),
    (407, ''Proxy Authentication Required''),
    (408, ''Request Timeout''),
    (409, ''Conflict''),
    (410, ''Gone''),
    (411, ''Length Required''),
    (412, ''Precondition Failed''),
    (413, ''Request Entity Too Large''),
    (414, ''Request-URI Too Long''),
    (415, ''Unsupported Media Type''),
    (416, ''Requested Range Not Satisfiable''),
    (417, ''Expectation Failed''),
    (418, ''I'm a teapot''),
    (419, ''Authentication Timeout''),
    (420, ''Method Failure (Spring Framework) / Enhance Your Calm (Twitter)''),
    (422, ''Unprocessable Entity''),
    (423, ''Locked''),
    (424, ''Failed Dependency''),
    (426, ''Upgrade Required''),
    (428, ''Precondition Required''),
    (429, ''Too Many Requests''),
    (431, ''Request Header Fields Too Large''),
    (440, ''Login Timeout (Microsoft)''),
    (444, ''No Response (Nginx)''),
    (449, ''Retry With (Microsoft)''),
    (450, ''Blocked by Windows Parental Controls (Microsoft)''),
    (451, ''Unavailable For Legal Reasons / Redirect (Microsoft)''),
    (494, ''Request Header Too Large (Nginx)''),
    (495, ''Cert Error (Nginx)''),
    (496, ''No Cert (Nginx)''),
    (497, ''HTTP to HTTPS (Nginx)''),
    (498, ''Token expired/invalid (Esri)''),
    (499, ''Client Closed Request (Nginx) / Token required (Esri)''),
    (500, ''Internal Server Error''),
    (501, ''Not Implemented''),
    (502, ''Bad Gateway''),
    (503, ''Service Unavailable''),
    (504, ''Gateway Timeout''),
    (505, ''HTTP Version Not Supported''),
    (506, ''Variant Also Negotiates''),
    (507, ''Insufficient Storage''),
    (508, ''Loop Detected''),
    (509, ''Bandwidth Limit Exceeded (Apache bw/limited extension)''),
    (510, ''Not Extended''),
    (511, ''Network Authentication Required''),
    (520, ''Origin Error (CloudFlare)''),
    (521, ''Web server is down (CloudFlare)''),
    (522, ''Connection timed out (CloudFlare)''),
    (523, ''Proxy Declined Request (CloudFlare)''),
    (524, ''A timeout occurred (CloudFlare)''),
    (598, ''Network read timeout error (Unknown)''),
    (599, ''Network connect timeout error (Unknown)'')]"

text \<open>
  The properties of the literal in source order: the constants under their names, the
  descriptions under the decimal rendering of their numeric keys.
\<close>

definition properties :: "(string \<times> jsval) list" where
  "properties =
     map (\<lambda>(n, c). (n, Num c)) constants @ map (\<lambda>(c, t). (ToString c, Str t)) descriptions"

text \<open>
  Evaluating an object literal defines its properties one after the other on a fresh
  object; a key written twice keeps the later value.
\<close>

definition ObjectLiteral :: "(string \<times> jsval) list \<Rightarrow> (string \<rightharpoonup> jsval)" where
  "ObjectLiteral ps = fold (\<lambda>(k, v) obj. obj(k \<mapsto> v)) ps Map.empty"

definition HTTPStatus :: "string \<rightharpoonup> jsval" where
  "HTTPStatus = ObjectLiteral properties"

subsection \<open>Property access\<close>

text \<open>
  An object literal is an ordinary object: its prototype is \<^verbatim>\<open>Object.prototype\<close>, and
  reading a property that the object does not have itself continues there. The names
  below are the members of \<^verbatim>\<open>Object.prototype\<close> in the language standard, the legacy
  ones of its annex B included. Reading any other missing property gives
  \<^verbatim>\<open>undefined\<close>, the value \<open>None\<close> here; a read never throws.
\<close>

definition ObjectPrototype_names :: "string list" where
  "ObjectPrototype_names = [
    ''constructor'',
    ''toString'',
    ''toLocaleString'',
    ''valueOf'',
    ''hasOwnProperty'',
    ''isPrototypeOf'',
    ''propertyIsEnumerable'',
    ''__proto__'',
    ''__defineGetter__'',
    ''__defineSetter__'',
    ''__lookupGetter__'',
    ''__lookupSetter__'']"

definition ObjectPrototype :: "string \<rightharpoonup> jsval" where
  "ObjectPrototype k = (if k \<in> set ObjectPrototype_names then Some (Builtin k) else None)"

definition Get :: "(string \<rightharpoonup> jsval) \<Rightarrow> string \<Rightarrow> jsval option" where
  "Get obj k = (case obj k of Some v \<Rightarrow> Some v | None \<Rightarrow> ObjectPrototype k)"

text \<open>
  The two lookups of the interface: \<^verbatim>\<open>HTTPStatus[code]\<close> for a number and
  \<^verbatim>\<open>HTTPStatus[name]\<close> (or \<^verbatim>\<open>HTTPStatus.NAME\<close>) for a string.
\<close>

definition lookupByCode :: "int \<Rightarrow> jsval option" where
  "lookupByCode c = Get HTTPStatus (ToString c)"

definition lookupBySymbolicName :: "string \<Rightarrow> jsval option" where
  "lookupBySymbolicName n = Get HTTPStatus n"

subsection \<open>The documented table\<close>

text \<open>
  The rows \<^verbatim>\<open>Code | Constant | Text\<close> of the section \<^verbatim>\<open>Codes\<close> of the module's
  documentation, transcribed in its order. The lookups are compared with it below.
\<close>

definition README_codes :: "(int \<times> string \<times> string) list" where
  "README_codes = [
    (100, ''CONTINUE'', ''Continue''),
    (101, ''SWITCHING_PROTOCOLS'', ''Switching Protocols''),
    (102, ''PROCESSING'', ''Processing''),
    (200, ''OK'', ''OK''),
    (201, ''CREATED'', ''Created''),
    (202, ''ACCEPTED'', ''Accepted''),
    (203, ''NON_AUTHORITATIVE_INFORMATION'', ''Non-Authoritative Information''),
    (204, ''NO_CONTENT'', ''No Content''),
    (205, ''RESET_CONTENT'', ''Reset Content''),
    (206, ''PARTIAL_CONTENT'', ''Partial Content''),
    (207, ''MULTI_STATUS'', ''Multi-Status''),
    (208, ''ALREADY_REPORTED'', ''Already Reported''),
    (209, ''IM_USED'', ''IM Used''),
    (300, ''MULTIPLE_CHOICES'', ''Multiple Choices''),
    (301, ''MOVED_PERMANENTLY'', ''Moved Permanently''),
    (302, ''FOUND'', ''Found''),
    (303, ''SEE_OTHER'', ''See Other''),
    (304, ''NOT_MODIFIED'', ''Not Modified''),
    (305, ''USE_PROXY'', ''Use Proxy''),
    (306, ''SWITCH_PROXY'', ''Switch Proxy''),
    (307, ''TEMPORARY_REDIRECT'', ''Temporary Redirect''),
    (308, ''PERMANENT_REDIRECT'', ''Permanent Redirect''),
    (400, ''BAD_REQUEST'', ''Bad Request''),
    (401, ''UNAUTHORIZED'', ''Unauthorized''),
    (402, ''PAYMENT_REQUIRED'', ''Payment Required''),
    (403, ''FORBIDDEN'', ''Forbidden''),
    (404, ''NOT_FOUND'', ''Not Found''),
    (405, ''METHOD_NOT_ALLOWED'', ''Method Not Allowed''),
    (406, ''NOT_ACCEPTABLE'', ''Not Acceptable''),
    (407, ''PROXY_AUTHENTICATION_REQUIRED'', ''Proxy Authentication Required''),
    (408, ''REQUEST_TIMEOUT'', ''Request Timeout''),
    (409, ''CONFLICT'', ''Conflict''),
    (410, ''GONE'', ''Gone''),
    (411, ''LENGTH_REQUIRED'', ''Length Required''),
    (412, ''PRECONDITION_FAILED'', ''Precondition Failed''),
    (413, ''REQUEST_ENTITY_TOO_LARGE'', ''Request Entity Too Large''),
    (414, ''REQUEST_URI_TOO_LONG'', ''Request-URI Too Long''),
    (415, ''UNSUPPORTED_MEDIA_TYPE'', ''Unsupported Media Type''),
    (416, ''REQUESTED_RANGE_NOT_SATISFIABLE'', ''Requested Range Not Satisfiable''),
    (417, ''EXPECTATION_FAILED'', ''Expectation Failed''),
    (418, ''I_AM_A_TEAPOT'', ''I'm a teapot''),
    (419, ''AUTHENTICATION_TIMEOUT'', ''Authentication Timeout''),
    (420, ''METHOD_FAILURE'', ''Method Failure (Spring Framework) / Enhance Your Calm (Twitter)''),
    (420, ''ENHANCE_YOUR_CALM'', ''Method Failure (Spring Framework) / Enhance Your Calm (Twitter)''),
    (422, ''UNPROCESSABLE_ENTITY'', ''Unprocessable Entity''),
    (423, ''LOCKED'', ''Locked''),
    (424, ''FAILED_DEPENDENCY'', ''Failed Dependency''),
    (426, ''UPGRADE_REQUIRED'', ''Upgrade Required''),
    (428, ''PRECONDITION_REQUIRED'', ''Precondition Required''),
    (429, ''TOO_MANY_REQUESTS'', ''Too Many Requests''),
    (431, ''REQUEST_HEADER_FIELDS_TOO_LARGE'', ''Request Header Fields Too Large''),
    (440, ''LOGIN_TIMEOUT'', ''Login Timeout (Microsoft)''),
    (444, ''NO_RESPONSE'', ''No Response (Nginx)''),
    (449, ''RETRY_WITH'', ''Retry With (Microsoft)''),
    (450, ''BLOCKED_BY_WINDOWS_PARENTAL_CONTROLS'', ''Blocked by Windows Parental Controls (Microsoft)''),
    (451, ''UNAVAILABLE_FOR_LEGAL_REASONS'', ''Unavailable For Legal Reasons / Redirect (Microsoft)''),
    (451, ''REDIRECT'', ''Unavailable For Legal Reasons / Redirect (Microsoft)''),
    (494, ''REQUEST_HEADER_TOO_LARGE'', ''Request Header Too Large (Nginx)''),
    (495, ''CERT_ERROR'', ''Cert Error (Nginx)''),
    (496, ''NO_CERT'', ''No Cert (Nginx)''),
    (497, ''HTTP_TO_HTTPS'', ''HTTP to HTTPS (Nginx)''),
    (498, ''TOKEN_EXPIRED'', ''Token expired/invalid (Esri)''),
    (498, ''TOKEN_INVALID'', ''Token expired/invalid (Esri)''),
    (499, ''CLIENT_CLOSED_REQUEST'', ''Client Closed Request (Nginx) / Token required (Esri)''),
    (499, ''TOKEN_REQUIRED'', ''Client Closed Request (Nginx) / Token required (Esri)''),
    (500, ''INTERNAL_SERVER_ERROR'', ''Internal Server Error''),
    (501, ''NOT_IMPLEMENTED'', ''Not Implemented''),
    (502, ''BAD_GATEWAY'', ''Bad Gateway''),
    (503, ''SERVICE_UNAVAILABLE'', ''Service Unavailable''),
    (504, ''GATEWAY_TIMEOUT'', ''Gateway Timeout''),
    (505, ''HTTP_VERSION_NOT_SUPPORTED'', ''HTTP Version Not Supported''),
    (506, ''VARIANT_ALSO_NEGOTIATES'', ''Variant Also Negotiates''),
    (507, ''INSUFFICIENT_STORAGE'', ''Insufficient Storage''),
    (508, ''LOOP_DETECTED'', ''Loop Detected''),
    (509, ''BANDWIDTH_LIMIT_EXCEEDED'', ''Bandwidth Limit Exceeded (Apache bw/limited extension)''),
    (510, ''NOT_EXTENDED'', ''Not Extended''),
    (511, ''NETWORK_AUTHENTICATION_REQUIRED'', ''Network Authentication Required''),
    (520, ''ORIGIN_ERROR'', ''Origin Error (CloudFlare)''),
    (521, ''WEB_SERVER_IS_DOWN'', ''Web server is down (CloudFlare)''),
    (522, ''CONNECTION_TIMED_OUT'', ''Connection timed out (CloudFlare)''),
    (523, ''PROXY_DECLINED_REQUEST'', ''Proxy Declined Request (CloudFlare)''),
    (524, ''A_TIMEOUT_OCCURRED'', ''A timeout occurred (CloudFlare)''),
    (598, ''NETWORK_READ_TIMEOUT_ERROR'', ''Network read timeout error (Unknown)''),
    (599, ''NETWORK_CONNECT_TIMEOUT_ERROR'', ''Network connect timeout error (Unknown)'')]"

text \<open>
  Section 6 of the specification condenses that table. These are the names whose code it
  states: the three classes it lists in full over a contiguous range, the two ends of
  the ranges it abbreviates, and the entries it annotates with their code.
\<close>

definition section6_codes :: "(string \<times> int) list" where
  "section6_codes = [
    (''CONTINUE'', 100),
    (''SWITCHING_PROTOCOLS'', 101),
    (''PROCESSING'', 102),
    (''OK'', 200),
    (''CREATED'', 201),
    (''ACCEPTED'', 202),
    (''NON_AUTHORITATIVE_INFORMATION'', 203),
    (''NO_CONTENT'', 204),
    (''RESET_CONTENT'', 205),
    (''PARTIAL_CONTENT'', 206),
    (''MULTI_STATUS'', 207),
    (''ALREADY_REPORTED'', 208),
    (''IM_USED'', 209),
    (''MULTIPLE_CHOICES'', 300),
    (''MOVED_PERMANENTLY'', 301),
    (''FOUND'', 302),
    (''SEE_OTHER'', 303),
    (''NOT_MODIFIED'', 304),
    (''USE_PROXY'', 305),
    (''SWITCH_PROXY'', 306),
    (''TEMPORARY_REDIRECT'', 307),
    (''PERMANENT_REDIRECT'', 308),
    (''BAD_REQUEST'', 400),
    (''REQUEST_HEADER_FIELDS_TOO_LARGE'', 431),
    (''LOGIN_TIMEOUT'', 440),
    (''NO_RESPONSE'', 444),
    (''RETRY_WITH'', 449),
    (''BLOCKED_BY_WINDOWS_PARENTAL_CONTROLS'', 450),
    (''UNAVAILABLE_FOR_LEGAL_REASONS'', 451),
    (''REDIRECT'', 451),
    (''REQUEST_HEADER_TOO_LARGE'', 494),
    (''CERT_ERROR'', 495),
    (''NO_CERT'', 496),
    (''HTTP_TO_HTTPS'', 497),
    (''TOKEN_EXPIRED'', 498),
    (''TOKEN_INVALID'', 498),
    (''CLIENT_CLOSED_REQUEST'', 499),
    (''TOKEN_REQUIRED'', 499),
    (''METHOD_FAILURE'', 420),
    (''ENHANCE_YOUR_CALM'', 420),
    (''INTERNAL_SERVER_ERROR'', 500),
    (''NETWORK_AUTHENTICATION_REQUIRED'', 511),
    (''ORIGIN_ERROR'', 520),
    (''WEB_SERVER_IS_DOWN'', 521),
    (''CONNECTION_TIMED_OUT'', 522),
    (''PROXY_DECLINED_REQUEST'', 523),
    (''A_TIMEOUT_OCCURRED'', 524),
    (''NETWORK_READ_TIMEOUT_ERROR'', 598),
    (''NETWORK_CONNECT_TIMEOUT_ERROR'', 599)]"

subsection \<open>The accessor of the documentation\<close>

text \<open>
  Modelled from the spec: the argument of \<^verbatim>\<open>getStatusText\<close>, which the specification
  types \<^verbatim>\<open>codeOrName: integer | string\<close>.
\<close>

datatype codeOrName = IntArg int | StrArg string

text \<open>
  Modelled from the spec: the test for a "numeric string". The specification does not
  say which strings count; a non-empty string of decimal digits is taken here.
\<close>

definition is_numeric :: "string \<Rightarrow> bool" where
  "is_numeric s = (s \<noteq> [] \<and> list_all (\<lambda>ch. ch \<in> set ''0123456789'') s)"

text \<open>
  Modelled from the spec: the "numeric coercion" of a numeric string.
\<close>

definition ToNumber :: "string \<Rightarrow> int" where
  "ToNumber s = int (numval s)"

text \<open>
  Modelled from the spec: the accessor \<^verbatim>\<open>getStatusText\<close>. The documentation of the
  module names it (\<^verbatim>\<open>HTTPStatus.getStatusText(404)\<close>), and \<^verbatim>\<open>HTTPStatus.js\<close>, an
  object literal of numbers and strings, does not define it. The specification: given
  an integer or a numeric string, it behaves as \<^verbatim>\<open>lookupByCode\<close> after numeric
  coercion; given a non-numeric string, it resolves it by \<^verbatim>\<open>lookupBySymbolicName\<close> to
  a code and returns the text of that code; any input that does not resolve gives
  \<^verbatim>\<open>NotFound\<close>.
\<close>

definition getStatusText :: "codeOrName \<Rightarrow> jsval option" where
  "getStatusText a =
     (case a of
        IntArg c \<Rightarrow> lookupByCode c
      | StrArg s \<Rightarrow>
          if is_numeric s then lookupByCode (ToNumber s)
          else (case lookupBySymbolicName s of
                  Some (Num c) \<Rightarrow> lookupByCode c
                | _ \<Rightarrow> None))"

subsection \<open>Runs of accesses\<close>







section \<open>The literal as a finite map, and the rendering of numeric keys\<close>

lemma fold_upd_map_of:
  "fold (\<lambda>(k, v) obj. obj(k \<mapsto> v)) ps m = m ++ map_of (rev ps)"
  by (induction ps arbitrary: m) (auto simp: map_add_upd_left)

lemma ObjectLiteral_map_of: "ObjectLiteral ps = map_of (rev ps)"
  by (simp add: ObjectLiteral_def fold_upd_map_of)

lemma below_ten: "(d::nat) < 10 \<Longrightarrow> d \<in> {0, 1, 2, 3, 4, 5, 6, 7, 8, 9}"
  by auto

lemma digit_val_digit_char: "d < 10 \<Longrightarrow> digit_val (digit_char d) = d"
  using below_ten [of d] by (auto simp: digit_val_def digit_char_def)

lemma digit_char_in: "digit_char d \<in> set ''0123456789''"
  using below_ten [of "d mod 10"] unfolding digit_char_def by auto

lemma numval_snoc: "numval (s @ [ch]) = 10 * numval s + digit_val ch"
  by (simp add: numval_def)

lemma numval_digits: "numval (digits n) = n"
proof (induction n rule: digits.induct)
  case (1 n)
  show ?case
  proof (cases "n < 10")
    case True
    then show ?thesis
      by (simp add: digits.simps [of n] numval_def digit_val_digit_char)
  next
    case False
    with 1 have "numval (digits (n div 10)) = n div 10" by simp
    with False show ?thesis
      by (simp add: digits.simps [of n] numval_snoc digit_val_digit_char)
  qed
qed

lemma digits_chars: "set (digits n) \<subseteq> set ''0123456789''"
proof (induction n rule: digits.induct)
  case (1 n)
  show ?case
  proof (cases "n < 10")
    case True
    then show ?thesis
      using digit_char_in [of n] by (simp add: digits.simps [of n])
  next
    case False
    with 1 have "set (digits (n div 10)) \<subseteq> set ''0123456789''" by simp
    with False show ?thesis
      using digit_char_in [of "n mod 10"] by (simp add: digits.simps [of n])
  qed
qed

lemma digits_not_Nil: "digits n \<noteq> []"
  by (simp add: digits.simps [of n])

lemma digits_inj: "digits a = digits b \<Longrightarrow> a = b"
  by (metis numval_digits)

lemma hd_digits: "hd (digits n) \<noteq> CHR ''-''"
proof -
  have "hd (digits n) \<in> set (digits n)" by (simp add: digits_not_Nil)
  with digits_chars [of n] show ?thesis by auto
qed

lemma ToString_inj: "ToString a = ToString b \<Longrightarrow> a = b"
proof -
  assume eq: "ToString a = ToString b"
  show ?thesis
  proof (cases "a < 0"; cases "b < 0")
    assume "a < 0" "b < 0"
    with eq have "nat (- a) = nat (- b)" by (auto simp: ToString_def dest: digits_inj)
    with \<open>a < 0\<close> \<open>b < 0\<close> show ?thesis by simp
  next
    assume "a < 0" "\<not> b < 0"
    with eq have "CHR ''-'' # digits (nat (- a)) = digits (nat b)" by (simp add: ToString_def)
    then have "hd (digits (nat b)) = CHR ''-''" by (metis list.sel(1))
    then show ?thesis using hd_digits by blast
  next
    assume "\<not> a < 0" "b < 0"
    with eq have "CHR ''-'' # digits (nat (- b)) = digits (nat a)" by (simp add: ToString_def)
    then have "hd (digits (nat a)) = CHR ''-''" by (metis list.sel(1))
    then show ?thesis using hd_digits by blast
  next
    assume "\<not> a < 0" "\<not> b < 0"
    with eq have "nat a = nat b" by (auto simp: ToString_def dest: digits_inj)
    with \<open>\<not> a < 0\<close> \<open>\<not> b < 0\<close> show ?thesis by simp
  qed
qed

lemma ToString_chars: "set (ToString c) \<subseteq> set ''-0123456789''"
proof (cases "c < 0")
  case True
  have "insert CHR ''-'' (set (digits (nat (- c)))) \<subseteq> insert CHR ''-'' (set ''0123456789'')"
    by (rule insert_mono) (rule digits_chars)
  then have "set (CHR ''-'' # digits (nat (- c))) \<subseteq> set (CHR ''-'' # ''0123456789'')"
    by (simp only: list.set(2))
  with True show ?thesis by (simp only: ToString_def if_True)
next
  case False
  have "set (digits (nat c)) \<subseteq> set (CHR ''-'' # ''0123456789'')"
    by (rule subset_trans [OF digits_chars set_subset_Cons])
  with False show ?thesis by (simp only: ToString_def if_False)
qed


section \<open>What the lookups return\<close>

lemma distinct_keys: "distinct (map fst properties)"
  by code_simp

lemma distinct_constants: "distinct (map fst constants)"
  by code_simp

lemma distinct_descriptions: "distinct (map fst descriptions)"
  by code_simp

lemma names_not_numeric: "\<forall>(n, c) \<in> set constants. \<not> set n \<subseteq> set ''-0123456789''"
  by code_simp

lemma builtins_not_numeric: "\<forall>n \<in> set ObjectPrototype_names. \<not> set n \<subseteq> set ''-0123456789''"
  by code_simp

lemma names_not_builtin: "\<forall>(n, c) \<in> set constants. n \<notin> set ObjectPrototype_names"
  by code_simp

lemma HTTPStatus_iff: "HTTPStatus k = Some v \<longleftrightarrow> (k, v) \<in> set properties"
proof -
  have "distinct (map fst (rev properties))"
    using distinct_keys by (simp add: rev_map [symmetric])
  then have "map_of (rev properties) k = Some v \<longleftrightarrow> (k, v) \<in> set (rev properties)"
    by (rule map_of_eq_Some_iff)
  then show ?thesis
    by (simp add: HTTPStatus_def ObjectLiteral_map_of)
qed

lemma properties_iff:
  "(k, v) \<in> set properties \<longleftrightarrow>
     (\<exists>c. v = Num c \<and> (k, c) \<in> set constants) \<or>
     (\<exists>c t. k = ToString c \<and> v = Str t \<and> (c, t) \<in> set descriptions)"
  by (auto simp: properties_def)

lemma HTTPStatus_None_iff: "HTTPStatus k = None \<longleftrightarrow> k \<notin> fst ` set properties"
  by (simp add: HTTPStatus_def ObjectLiteral_map_of map_of_eq_None_iff)

lemma ToString_not_name: "(ToString c, d) \<notin> set constants"
  using names_not_numeric ToString_chars [of c] by blast

lemma ToString_not_builtin: "ObjectPrototype (ToString c) = None"
  using builtins_not_numeric ToString_chars [of c] by (auto simp: ObjectPrototype_def)

lemma HTTPStatus_code: "HTTPStatus (ToString c) = map_option Str (map_of descriptions c)"
proof (cases "map_of descriptions c")
  case None
  then have no: "\<And>t. (c, t) \<notin> set descriptions"
    by (metis map_of_eq_None_iff fst_conv image_eqI)
  have "HTTPStatus (ToString c) = None"
  proof (rule ccontr)
    assume "HTTPStatus (ToString c) \<noteq> None"
    then obtain v where "(ToString c, v) \<in> set properties"
      using HTTPStatus_iff by auto
    then obtain c' t where "ToString c = ToString c'" "(c', t) \<in> set descriptions"
      using ToString_not_name by (auto simp: properties_iff)
    with no show False by (auto dest: ToString_inj)
  qed
  with None show ?thesis by simp
next
  case (Some t)
  then have "(c, t) \<in> set descriptions" by (rule map_of_SomeD)
  then have "(ToString c, Str t) \<in> set properties" by (auto simp: properties_iff)
  then have "HTTPStatus (ToString c) = Some (Str t)" by (simp add: HTTPStatus_iff)
  with Some show ?thesis by simp
qed

lemma lookupByCode_eq: "lookupByCode c = map_option Str (map_of descriptions c)"
  by (cases "map_of descriptions c")
    (simp_all add: lookupByCode_def Get_def HTTPStatus_code ToString_not_builtin)

lemma lookupByCode_description:
  "(c, t) \<in> set descriptions \<Longrightarrow> lookupByCode c = Some (Str t)"
  using distinct_descriptions by (simp add: lookupByCode_eq)

lemma lookupBySymbolicName_constant:
  "(n, c) \<in> set constants \<Longrightarrow> lookupBySymbolicName n = Some (Num c)"
proof -
  assume "(n, c) \<in> set constants"
  then have "(n, Num c) \<in> set properties" by (auto simp: properties_iff)
  then have "HTTPStatus n = Some (Num c)" by (simp add: HTTPStatus_iff)
  then show ?thesis by (simp add: lookupBySymbolicName_def Get_def)
qed

lemma lookupBySymbolicName_Num:
  "lookupBySymbolicName n = Some (Num c) \<Longrightarrow> (n, c) \<in> set constants"
proof -
  assume a: "lookupBySymbolicName n = Some (Num c)"
  have "HTTPStatus n = Some (Num c)"
  proof (cases "HTTPStatus n")
    case None
    with a show ?thesis
      by (auto simp: lookupBySymbolicName_def Get_def ObjectPrototype_def split: if_splits)
  next
    case (Some v)
    with a show ?thesis by (simp add: lookupBySymbolicName_def Get_def)
  qed
  then show ?thesis by (auto simp: HTTPStatus_iff properties_iff)
qed

lemma lookupBySymbolicName_absent:
  "n \<notin> fst ` set properties \<Longrightarrow> lookupBySymbolicName n = ObjectPrototype n"
  by (simp add: lookupBySymbolicName_def Get_def HTTPStatus_None_iff [symmetric])

lemma is_numeric_chars: "is_numeric s \<Longrightarrow> set s \<subseteq> set ''-0123456789''"
proof -
  assume "is_numeric s"
  then have "set s \<subseteq> set ''0123456789''"
    unfolding is_numeric_def list_all_iff by blast
  then show ?thesis
    by (rule subset_trans) (rule set_subset_Cons)
qed

lemma name_not_numeric: "(n, c) \<in> set constants \<Longrightarrow> \<not> is_numeric n"
  using names_not_numeric is_numeric_chars by blast

lemma documented_in_source:
  "\<forall>(c, n, t) \<in> set README_codes. (n, c) \<in> set constants \<and> (c, t) \<in> set descriptions"
  by code_simp

lemma section6_in_source: "\<forall>(n, c) \<in> set section6_codes. (n, c) \<in> set constants"
  by code_simp

lemma descriptions_range: "\<forall>(c, t) \<in> set descriptions. 100 \<le> c \<and> c \<le> 599 \<and> t \<noteq> []"
  by code_simp

lemma constants_described: "\<forall>(n, c) \<in> set constants. c \<in> fst ` set descriptions"
  by code_simp


section \<open>Runs of reads and assignments\<close>


















section \<open>The claims of the specification\<close>

text \<open>
  C1. The accessor \<^verbatim>\<open>getStatusText\<close> dispatches on its argument: an integer is
  looked up in the code-to-text table; a numeric string is coerced to its number and
  looked up likewise; a non-numeric string is resolved to a code by the name lookup and
  gives the text of that code; and an input that resolves neither way (an integer or a
  numeric string that is no described code, a non-numeric string that is no constant)
  gives \<^verbatim>\<open>NotFound\<close>.
\<close>

theorem getStatusText_dispatch:
  "(\<forall>c. getStatusText (IntArg c) = lookupByCode c) \<and>
   (\<forall>s. is_numeric s \<longrightarrow> getStatusText (StrArg s) = lookupByCode (ToNumber s)) \<and>
   (\<forall>s c. \<not> is_numeric s \<and> lookupBySymbolicName s = Some (Num c) \<longrightarrow>
      getStatusText (StrArg s) = lookupByCode c) \<and>
   (\<forall>c. c \<notin> fst ` set descriptions \<longrightarrow> getStatusText (IntArg c) = None) \<and>
   (\<forall>s. is_numeric s \<and> ToNumber s \<notin> fst ` set descriptions \<longrightarrow>
      getStatusText (StrArg s) = None) \<and>
   (\<forall>s. \<not> is_numeric s \<and> s \<notin> fst ` set constants \<longrightarrow> getStatusText (StrArg s) = None)"
proof (intro conjI allI impI)
  fix c
  show "getStatusText (IntArg c) = lookupByCode c"
    by (simp add: getStatusText_def)
next
  fix s
  assume "is_numeric s"
  then show "getStatusText (StrArg s) = lookupByCode (ToNumber s)"
    by (simp add: getStatusText_def)
next
  fix s c
  assume "\<not> is_numeric s \<and> lookupBySymbolicName s = Some (Num c)"
  then show "getStatusText (StrArg s) = lookupByCode c"
    by (simp add: getStatusText_def)
next
  fix c :: int
  assume "c \<notin> fst ` set descriptions"
  then have "map_of descriptions c = None" by (simp add: map_of_eq_None_iff)
  then show "getStatusText (IntArg c) = None"
    by (simp add: getStatusText_def lookupByCode_eq)
next
  fix s
  assume a: "is_numeric s \<and> ToNumber s \<notin> fst ` set descriptions"
  then have "map_of descriptions (ToNumber s) = None" by (simp add: map_of_eq_None_iff)
  with a show "getStatusText (StrArg s) = None"
    by (simp add: getStatusText_def lookupByCode_eq)
next
  fix s
  assume a: "\<not> is_numeric s \<and> s \<notin> fst ` set constants"
  have "\<And>c. lookupBySymbolicName s \<noteq> Some (Num c)"
  proof
    fix c
    assume "lookupBySymbolicName s = Some (Num c)"
    then have "(s, c) \<in> set constants" by (rule lookupBySymbolicName_Num)
    with a show False by force
  qed
  with a show "getStatusText (StrArg s) = None"
    by (auto simp: getStatusText_def split: option.splits jsval.splits)
qed

theorem getStatusText_dispatch_witness:
  "getStatusText (IntArg 404) = Some (Str ''Not Found'') \<and>
   is_numeric ''404'' \<and>
   getStatusText (StrArg ''404'') = Some (Str ''Not Found'') \<and>
   \<not> is_numeric ''NOT_FOUND'' \<and>
   getStatusText (StrArg ''NOT_FOUND'') = Some (Str ''Not Found'') \<and>
   999 \<notin> fst ` set descriptions \<and>
   getStatusText (IntArg 999) = None \<and>
   ''NOT_A_REAL_STATUS'' \<notin> fst ` set constants \<and>
   getStatusText (StrArg ''NOT_A_REAL_STATUS'') = None"
proof -
  have text404: "lookupByCode 404 = Some (Str ''Not Found'')"
    by (simp add: lookupByCode_eq descriptions_def)
  have num: "is_numeric ''404''" "ToNumber ''404'' = 404"
    by (simp_all add: is_numeric_def ToNumber_def numval_def digit_val_def)
  have name: "\<not> is_numeric ''NOT_FOUND''" "\<not> is_numeric ''NOT_A_REAL_STATUS''"
    by (simp_all add: is_numeric_def)
  have code: "lookupBySymbolicName ''NOT_FOUND'' = Some (Num 404)"
    by (rule lookupBySymbolicName_constant) (simp add: constants_def)
  have no999: "999 \<notin> fst ` set descriptions"
    by (simp add: descriptions_def)
  have noname: "''NOT_A_REAL_STATUS'' \<notin> fst ` set constants"
    by (simp add: constants_def)
  note dispatch = getStatusText_dispatch
  from dispatch have "getStatusText (IntArg 404) = lookupByCode 404"
    by blast
  moreover from dispatch num(1) have "getStatusText (StrArg ''404'') = lookupByCode (ToNumber ''404'')"
    by blast
  moreover from dispatch name(1) code have "getStatusText (StrArg ''NOT_FOUND'') = lookupByCode 404"
    by blast
  moreover from dispatch no999 have "getStatusText (IntArg 999) = None"
    by blast
  moreover from dispatch name(2) noname have "getStatusText (StrArg ''NOT_A_REAL_STATUS'') = None"
    by blast
  ultimately show ?thesis
    using text404 num name(1) no999 noname by simp
qed

text \<open>
  C2. For every row of the documented table, looking its code up returns exactly the
  text of the row; the lookup of 404 returns \<^verbatim>\<open>Not Found\<close> and the lookup of 418
  returns \<^verbatim>\<open>I'm a teapot\<close>.
\<close>

theorem lookupByCode_documented:
  "(\<forall>(c, n, t) \<in> set README_codes. lookupByCode c = Some (Str t)) \<and>
   lookupByCode 404 = Some (Str ''Not Found'') \<and>
   lookupByCode 418 = Some (Str ''I'm a teapot'')"
proof (intro conjI)
  show "\<forall>(c, n, t) \<in> set README_codes. lookupByCode c = Some (Str t)"
    using documented_in_source lookupByCode_description by fast
  show "lookupByCode 404 = Some (Str ''Not Found'')"
    by (simp add: lookupByCode_eq descriptions_def)
  show "lookupByCode 418 = Some (Str ''I'm a teapot'')"
    by (simp add: lookupByCode_eq descriptions_def)
qed

theorem lookupByCode_documented_witness:
  "(451, ''REDIRECT'', ''Unavailable For Legal Reasons / Redirect (Microsoft)'') \<in> set README_codes \<and>
   lookupByCode 451 = Some (Str ''Unavailable For Legal Reasons / Redirect (Microsoft)'')"
proof -
  have row: "(451, ''REDIRECT'', ''Unavailable For Legal Reasons / Redirect (Microsoft)'')
      \<in> set README_codes"
    by (simp add: README_codes_def)
  with lookupByCode_documented show ?thesis by fast
qed

text \<open>
  C3. For every row of the documented table, and for every name whose code section 6
  of the specification states, looking the name up returns exactly the documented
  code; the lookup of \<^verbatim>\<open>OK\<close> returns 200 and the lookup of \<^verbatim>\<open>NOT_FOUND\<close> returns 404.
\<close>

theorem lookupBySymbolicName_documented:
  "(\<forall>(c, n, t) \<in> set README_codes. lookupBySymbolicName n = Some (Num c)) \<and>
   (\<forall>(n, c) \<in> set section6_codes. lookupBySymbolicName n = Some (Num c)) \<and>
   lookupBySymbolicName ''OK'' = Some (Num 200) \<and>
   lookupBySymbolicName ''NOT_FOUND'' = Some (Num 404)"
proof (intro conjI)
  show "\<forall>(c, n, t) \<in> set README_codes. lookupBySymbolicName n = Some (Num c)"
    using documented_in_source lookupBySymbolicName_constant by fast
  show "\<forall>(n, c) \<in> set section6_codes. lookupBySymbolicName n = Some (Num c)"
    using section6_in_source lookupBySymbolicName_constant by fast
  show "lookupBySymbolicName ''OK'' = Some (Num 200)"
    by (rule lookupBySymbolicName_constant) (simp add: constants_def)
  show "lookupBySymbolicName ''NOT_FOUND'' = Some (Num 404)"
    by (rule lookupBySymbolicName_constant) (simp add: constants_def)
qed

theorem lookupBySymbolicName_documented_witness:
  "(418, ''I_AM_A_TEAPOT'', ''I'm a teapot'') \<in> set README_codes \<and>
   lookupBySymbolicName ''I_AM_A_TEAPOT'' = Some (Num 418) \<and>
   (''IM_USED'', 209) \<in> set section6_codes \<and>
   lookupBySymbolicName ''IM_USED'' = Some (Num 209)"
proof -
  have row: "(418, ''I_AM_A_TEAPOT'', ''I'm a teapot'') \<in> set README_codes"
    by (simp add: README_codes_def)
  have entry: "(''IM_USED'', 209) \<in> set section6_codes"
    by (simp add: section6_codes_def)
  from row entry lookupBySymbolicName_documented show ?thesis by fast
qed

text \<open>
  C4, as stated, fails. The claim: for every key absent from the tables, a lookup
  returns the absence value. The name \<^verbatim>\<open>toString\<close> is a key of neither table, and
  \<^verbatim>\<open>HTTPStatus["toString"]\<close> is not \<^verbatim>\<open>undefined\<close>: the read continues in the prototype
  of the literal and returns the built-in member found there.
\<close>

theorem lookup_absent_counterexample:
  "''toString'' \<notin> fst ` set properties \<and>
   lookupBySymbolicName ''toString'' = Some (Builtin ''toString'')"
proof -
  have absent: "''toString'' \<notin> fst ` set properties"
    by code_simp
  then have "lookupBySymbolicName ''toString'' = ObjectPrototype ''toString''"
    by (rule lookupBySymbolicName_absent)
  with absent show ?thesis
    by (simp add: ObjectPrototype_def ObjectPrototype_names_def)
qed

text \<open>
  C4, amended. No lookup raises: a read returns a value or \<^verbatim>\<open>undefined\<close>. For every
  string that is no key of the literal and no member name of \<^verbatim>\<open>Object.prototype\<close>, the
  lookup returns \<^verbatim>\<open>undefined\<close>; for every integer that is no key of the code-to-text
  table, the lookup returns \<^verbatim>\<open>undefined\<close>; in particular the lookups of the code 999
  and of the name \<^verbatim>\<open>NOT_A_REAL_STATUS\<close> do.
\<close>

theorem lookup_absent:
  "(\<forall>n. n \<notin> fst ` set properties \<and> n \<notin> set ObjectPrototype_names \<longrightarrow>
      lookupBySymbolicName n = None) \<and>
   (\<forall>c. c \<notin> fst ` set descriptions \<longrightarrow> lookupByCode c = None) \<and>
   lookupByCode 999 = None \<and>
   lookupBySymbolicName ''NOT_A_REAL_STATUS'' = None"
proof (intro conjI allI impI)
  fix n
  assume "n \<notin> fst ` set properties \<and> n \<notin> set ObjectPrototype_names"
  then show "lookupBySymbolicName n = None"
    by (simp add: lookupBySymbolicName_absent ObjectPrototype_def)
next
  fix c :: int
  assume "c \<notin> fst ` set descriptions"
  then have "map_of descriptions c = None" by (simp add: map_of_eq_None_iff)
  then show "lookupByCode c = None" by (simp add: lookupByCode_eq)
next
  show "lookupByCode 999 = None"
    by (simp add: lookupByCode_eq descriptions_def)
next
  have "''NOT_A_REAL_STATUS'' \<notin> fst ` set properties"
    by code_simp
  then have "lookupBySymbolicName ''NOT_A_REAL_STATUS'' = ObjectPrototype ''NOT_A_REAL_STATUS''"
    by (rule lookupBySymbolicName_absent)
  then show "lookupBySymbolicName ''NOT_A_REAL_STATUS'' = None"
    by (simp add: ObjectPrototype_def ObjectPrototype_names_def)
qed

theorem lookup_absent_witness:
  "''NOT_FOUND_AT_ALL'' \<notin> fst ` set properties \<and>
   ''NOT_FOUND_AT_ALL'' \<notin> set ObjectPrototype_names \<and>
   lookupBySymbolicName ''NOT_FOUND_AT_ALL'' = None \<and>
   421 \<notin> fst ` set descriptions \<and>
   lookupByCode 421 = None"
proof -
  have a: "''NOT_FOUND_AT_ALL'' \<notin> fst ` set properties"
    by code_simp
  have b: "''NOT_FOUND_AT_ALL'' \<notin> set ObjectPrototype_names"
    by (simp add: ObjectPrototype_names_def)
  have c: "421 \<notin> fst ` set descriptions"
    by (simp add: descriptions_def)
  from a b c lookup_absent show ?thesis by blast
qed

text \<open>
  C5. The two names of each dual-alias pair resolve to the same code:
  \<^verbatim>\<open>METHOD_FAILURE\<close> and \<^verbatim>\<open>ENHANCE_YOUR_CALM\<close> to 420,
  \<^verbatim>\<open>UNAVAILABLE_FOR_LEGAL_REASONS\<close> and \<^verbatim>\<open>REDIRECT\<close> to 451,
  \<^verbatim>\<open>TOKEN_EXPIRED\<close> and \<^verbatim>\<open>TOKEN_INVALID\<close> to 498,
  \<^verbatim>\<open>CLIENT_CLOSED_REQUEST\<close> and \<^verbatim>\<open>TOKEN_REQUIRED\<close> to 499.
\<close>

theorem dual_aliases:
  "lookupBySymbolicName ''METHOD_FAILURE'' = Some (Num 420) \<and>
   lookupBySymbolicName ''ENHANCE_YOUR_CALM'' = Some (Num 420) \<and>
   lookupBySymbolicName ''UNAVAILABLE_FOR_LEGAL_REASONS'' = Some (Num 451) \<and>
   lookupBySymbolicName ''REDIRECT'' = Some (Num 451) \<and>
   lookupBySymbolicName ''TOKEN_EXPIRED'' = Some (Num 498) \<and>
   lookupBySymbolicName ''TOKEN_INVALID'' = Some (Num 498) \<and>
   lookupBySymbolicName ''CLIENT_CLOSED_REQUEST'' = Some (Num 499) \<and>
   lookupBySymbolicName ''TOKEN_REQUIRED'' = Some (Num 499)"
  by (intro conjI; rule lookupBySymbolicName_constant; simp add: constants_def)

text \<open>
  C6. For every symbolic name \<open>n\<close> that the table maps to a code \<open>c\<close>,
  \<^verbatim>\<open>getStatusText\<close> applied to \<open>n\<close> equals \<^verbatim>\<open>getStatusText\<close> applied to \<open>c\<close>.
\<close>

theorem getStatusText_alias_consistent:
  "lookupBySymbolicName n = Some (Num c) \<Longrightarrow>
     getStatusText (StrArg n) = getStatusText (IntArg c)"
proof -
  assume a: "lookupBySymbolicName n = Some (Num c)"
  then have "(n, c) \<in> set constants" by (rule lookupBySymbolicName_Num)
  then have "\<not> is_numeric n" by (rule name_not_numeric)
  with a show ?thesis by (simp add: getStatusText_def)
qed

theorem getStatusText_alias_consistent_witness:
  "lookupBySymbolicName ''NOT_FOUND'' = Some (Num 404) \<and>
   getStatusText (StrArg ''NOT_FOUND'') = getStatusText (IntArg 404) \<and>
   getStatusText (IntArg 404) = Some (Str ''Not Found'')"
proof -
  have a: "lookupBySymbolicName ''NOT_FOUND'' = Some (Num 404)"
    by (rule lookupBySymbolicName_constant) (simp add: constants_def)
  have b: "getStatusText (IntArg 404) = Some (Str ''Not Found'')"
    by (simp add: getStatusText_def lookupByCode_eq descriptions_def)
  from a b getStatusText_alias_consistent [OF a] show ?thesis by simp
qed

text \<open>
  C7. Every code that the code-to-text table maps lies between 100 and 599; 100 and
  599 are mapped themselves, so they are the least and the greatest mapped code, and
  they resolve to their documented texts.
\<close>

theorem codes_within_range:
  "(\<forall>c v. lookupByCode c = Some v \<longrightarrow> 100 \<le> c \<and> c \<le> 599) \<and>
   lookupByCode 100 = Some (Str ''Continue'') \<and>
   lookupByCode 599 = Some (Str ''Network connect timeout error (Unknown)'')"
proof (intro conjI allI impI)
  fix c v
  assume "lookupByCode c = Some v"
  then obtain t where "map_of descriptions c = Some t"
    by (auto simp: lookupByCode_eq)
  then have "(c, t) \<in> set descriptions" by (rule map_of_SomeD)
  with descriptions_range show "100 \<le> c" by fast
  from \<open>(c, t) \<in> set descriptions\<close> descriptions_range show "c \<le> 599" by fast
next
  show "lookupByCode 100 = Some (Str ''Continue'')"
    by (simp add: lookupByCode_eq descriptions_def)
  show "lookupByCode 599 = Some (Str ''Network connect timeout error (Unknown)'')"
    by (simp add: lookupByCode_eq descriptions_def)
qed

theorem codes_within_range_witness:
  "lookupByCode 524 = Some (Str ''A timeout occurred (CloudFlare)'') \<and>
   (100::int) \<le> 524 \<and> (524::int) \<le> 599"
proof -
  have a: "lookupByCode 524 = Some (Str ''A timeout occurred (CloudFlare)'')"
    by (simp add: lookupByCode_eq descriptions_def)
  with codes_within_range show ?thesis by blast
qed

text \<open>
  C8. No key is written twice in the literal, among the names, among the codes or
  across both; every symbolic name resolves to the one code written at it; and every
  mapped code, reached from a name or directly, has a text that is not empty.
\<close>

theorem names_unique_texts_nonempty:
  "distinct (map fst constants) \<and>
   distinct (map fst descriptions) \<and>
   distinct (map fst properties) \<and>
   (\<forall>(n, c) \<in> set constants. lookupBySymbolicName n = Some (Num c)) \<and>
   (\<forall>(n, c) \<in> set constants. \<exists>t. lookupByCode c = Some (Str t) \<and> t \<noteq> []) \<and>
   (\<forall>(c, t) \<in> set descriptions. lookupByCode c = Some (Str t) \<and> t \<noteq> [])"
proof (intro conjI)
  show "distinct (map fst constants)" by (rule distinct_constants)
  show "distinct (map fst descriptions)" by (rule distinct_descriptions)
  show "distinct (map fst properties)" by (rule distinct_keys)
  show "\<forall>(n, c) \<in> set constants. lookupBySymbolicName n = Some (Num c)"
    using lookupBySymbolicName_constant by fast
  show d: "\<forall>(c, t) \<in> set descriptions. lookupByCode c = Some (Str t) \<and> t \<noteq> []"
    using lookupByCode_description descriptions_range by fast
  show "\<forall>(n, c) \<in> set constants. \<exists>t. lookupByCode c = Some (Str t) \<and> t \<noteq> []"
  proof (clarify)
    fix n c
    assume "(n, c) \<in> set constants"
    with constants_described have "c \<in> fst ` set descriptions" by fast
    then obtain t where "(c, t) \<in> set descriptions" by force
    with d show "\<exists>t. lookupByCode c = Some (Str t) \<and> t \<noteq> []" by fast
  qed
qed

theorem names_unique_texts_nonempty_witness:
  "(''GONE'', 410) \<in> set constants \<and>
   lookupBySymbolicName ''GONE'' = Some (Num 410) \<and>
   (\<exists>t. lookupByCode 410 = Some (Str t) \<and> t \<noteq> []) \<and>
   (410, ''Gone'') \<in> set descriptions \<and>
   lookupByCode 410 = Some (Str ''Gone'')"
proof -
  have a: "(''GONE'', 410) \<in> set constants"
    by (simp add: constants_def)
  have b: "(410, ''Gone'') \<in> set descriptions"
    by (simp add: descriptions_def)
  from a b names_unique_texts_nonempty show ?thesis by fast
qed




text \<open>
  C10. The code-to-text table has gaps inside the range from 100 to 599: 421 and 425
  lie in the range and are not keys, so their lookup gives \<^verbatim>\<open>undefined\<close>, while their
  neighbours 420, 422, 424 and 426 are mapped.
\<close>

theorem code_gaps:
  "lookupByCode 421 = None \<and> lookupByCode 425 = None \<and>
   (100::int) \<le> 421 \<and> (425::int) \<le> 599 \<and>
   lookupByCode 420 = Some (Str ''Method Failure (Spring Framework) / Enhance Your Calm (Twitter)'') \<and>
   lookupByCode 422 = Some (Str ''Unprocessable Entity'') \<and>
   lookupByCode 424 = Some (Str ''Failed Dependency'') \<and>
   lookupByCode 426 = Some (Str ''Upgrade Required'')"
  by (simp add: lookupByCode_eq descriptions_def)

end
